theory Spec2Isabelle
  imports Complex_Main "HOL-Library.Multiset" "HOL-Library.Char_ord" "HOL-Library.List_Lexorder"
begin

section \<open>Data model: pandas frames as the dashboard uses them\<close>

text \<open>
  A DataFrame is a list of column names and a list of rows. \<open>pd.DataFrame()\<close> has
  neither. \<open>df.empty\<close> is true when either axis has length zero.
\<close>

record 'r dataframe =
  columns :: "string list"
  rows :: "'r list"

definition pd_DataFrame :: "'r dataframe" where
  "pd_DataFrame = \<lparr>columns = [], rows = []\<rparr>"

definition df_empty :: "'r dataframe \<Rightarrow> bool" where
  "df_empty df = (columns df = [] \<or> rows df = [])"

text \<open>
  A row of a measurement table, as \<open>read_csv(..., index_col='Timestamp')\<close> delivers it
  from a cleaned file: the index label, the \<open>Country\<close> tag (\<open>None\<close> is NaN, also when the
  frame has no such column) and the numeric columns by name. A name with no entry reads
  as NaN. Measurements are floating-point numbers in the program; here they are exact
  rationals, so rounding is not modelled.
\<close>

record mrow =
  Timestamp :: string
  Country :: "string option"
  metrics :: "(string \<times> rat) list"

type_synonym table = "mrow dataframe"

definition metric :: "mrow \<Rightarrow> string \<Rightarrow> rat option" where
  "metric r m = map_of (metrics r) m"

text \<open>Cells of the frames the ranking function builds, and the values a chart plots.\<close>

datatype cell = Num rat | Str string | NaN

definition cell_at :: "mrow \<Rightarrow> string \<Rightarrow> cell" where
  "cell_at r name =
     (if name = ''Country'' then (case Country r of Some c \<Rightarrow> Str c | None \<Rightarrow> NaN)
      else (case metric r name of Some v \<Rightarrow> Num v | None \<Rightarrow> NaN))"


datatype exn =
    FileNotFoundError string
  | KeyError string
  | ValueError string
  | Exception string

fun exn_str :: "exn \<Rightarrow> string" where
  "exn_str (FileNotFoundError m) = m"
| "exn_str (KeyError m) = m"
| "exn_str (ValueError m) = m"
| "exn_str (Exception m) = m"

section \<open>The environment of the loader\<close>

text \<open>
  What the loader reads from outside: the directory of \<open>utils.py\<close>
  (\<open>os.path.dirname(__file__)\<close>), \<open>os.path.exists\<close>, and the outcome of
  \<open>pd.read_csv(path, index_col='Timestamp', parse_dates=True)\<close> on a path, which is a
  table or an exception. Every observable effect is an event: a call of the decorated
  loader, a probe of a path, a read of a file, an \<open>st.error\<close> message.
\<close>

record env =
  module_dir :: string
  path_exists :: "string \<Rightarrow> bool"
  read_csv :: "string \<Rightarrow> exn + table"

datatype event = Invoke string | Exists string | ReadCsv string | StError string

fun st_error_of :: "event \<Rightarrow> string option" where
  "st_error_of (StError m) = Some m"
| "st_error_of _ = None"

definition st_errors :: "event list \<Rightarrow> string list" where
  "st_errors evs = List.map_filter st_error_of evs"

fun is_file_access :: "event \<Rightarrow> bool" where
  "is_file_access (Exists p) = True"
| "is_file_access (ReadCsv p) = True"
| "is_file_access _ = False"

text \<open>\<open>os.path.join\<close> of two components (POSIX).\<close>

definition path_join :: "string \<Rightarrow> string \<Rightarrow> string" where
  "path_join a b =
     (if take 1 b = ''/'' then b
      else if a = [] \<or> last a = CHR ''/'' then a @ b
      else a @ ''/'' @ b)"

definition quoted :: "string \<Rightarrow> string" where
  "quoted s = [CHR 0x27] @ s @ [CHR 0x27]"

section \<open>The per-entity loader\<close>

definition filename_map :: "(string \<times> string) list" where
  "filename_map =
     [(''Benin'', ''benin_clean.csv''),
      (''Sierra Leone'', ''sierraleone_clean.csv''),
      (''Togo'', ''togo_clean.csv'')]"

definition file_path_relative :: "env \<Rightarrow> string \<Rightarrow> string" where
  "file_path_relative env filename =
     path_join (path_join (path_join (module_dir env) ''..'') ''data'') filename"

definition file_path_from_root :: "string \<Rightarrow> string" where
  "file_path_from_root filename = path_join ''data'' filename"

text \<open>\<open>df['Country'] = country_name\<close>: a new last column, or the old one overwritten.\<close>

definition set_Country :: "table \<Rightarrow> string \<Rightarrow> table" where
  "set_Country df country_name =
     \<lparr>columns = (if ''Country'' \<in> set (columns df) then columns df
                 else columns df @ [''Country'']),
      rows = map (\<lambda>r. r\<lparr>Country := Some country_name\<rparr>) (rows df)\<rparr>"

text \<open>The \<open>try\<close> block of the loader with its two handlers.\<close>

definition try_read_csv ::
  "env \<Rightarrow> string \<Rightarrow> string \<Rightarrow> string \<Rightarrow> (exn + table) \<times> event list" where
  "try_read_csv env country_name filename file_path_to_load =
     (case read_csv env file_path_to_load of
        Inr df \<Rightarrow> (Inr (set_Country df country_name), [ReadCsv file_path_to_load])
      | Inl (FileNotFoundError m) \<Rightarrow>
          (Inr pd_DataFrame,
           [ReadCsv file_path_to_load,
            StError (''Error: Cleaned data file '' @ quoted filename @ '' not found at ''
                     @ quoted file_path_to_load @ ''.'')])
      | Inl e \<Rightarrow>
          (Inr pd_DataFrame,
           [ReadCsv file_path_to_load,
            StError (''Error loading data for '' @ country_name @ '': '' @ exn_str e)]))"

text \<open>
  The body of \<open>load_country_data\<close>: the value it returns (\<open>Inl\<close> would be an exception
  that leaves the function) and the events it causes, in order.
\<close>

definition load_country_data_body :: "env \<Rightarrow> string \<Rightarrow> (exn + table) \<times> event list" where
  "load_country_data_body env country_name =
     (case map_of filename_map country_name of
        None \<Rightarrow> (Inr pd_DataFrame, [])
      | Some filename \<Rightarrow>
          (if path_exists env (file_path_relative env filename) then
             (case try_read_csv env country_name filename (file_path_relative env filename) of
                (r, evs) \<Rightarrow> (r, Exists (file_path_relative env filename) # evs))
           else if path_exists env (file_path_from_root filename) then
             (case try_read_csv env country_name filename (file_path_from_root filename) of
                (r, evs) \<Rightarrow>
                  (r, Exists (file_path_relative env filename)
                      # Exists (file_path_from_root filename) # evs))
           else
             (Inr pd_DataFrame,
              [Exists (file_path_relative env filename),
               Exists (file_path_from_root filename),
               StError (''Could not determine path for data file '' @ quoted filename
                        @ ''. Checked relative and root paths.'')])))"

text \<open>
  \<open>@st.cache_data\<close>: a value returned for a key is stored with the messages the body
  emitted; a later call with the key returns the stored value and replays the messages,
  and the body does not run. An exception stores nothing.
\<close>

record caches =
  country_cache :: "string \<rightharpoonup> table \<times> string list"
  all_cache :: "string list \<rightharpoonup> table \<times> string list"

definition no_caches :: caches where
  "no_caches = \<lparr>country_cache = Map.empty, all_cache = Map.empty\<rparr>"

definition load_country_data ::
  "env \<Rightarrow> string \<Rightarrow> caches \<Rightarrow> (exn + table) \<times> event list \<times> caches" where
  "load_country_data env country_name c =
     (case country_cache c country_name of
        Some (df, msgs) \<Rightarrow> (Inr df, Invoke country_name # map StError msgs, c)
      | None \<Rightarrow>
          (case load_country_data_body env country_name of
             (Inr df, evs) \<Rightarrow>
               (Inr df, Invoke country_name # evs,
                c\<lparr>country_cache := (country_cache c)(country_name \<mapsto> (df, st_errors evs))\<rparr>)
           | (Inl e, evs) \<Rightarrow> (Inl e, Invoke country_name # evs, c)))"

section \<open>The multi-entity aggregator\<close>

text \<open>
  \<open>pd.concat(dfs, ignore_index=False)\<close>: the columns in order of first appearance, the
  rows of each frame in turn with their index labels; a value a frame has no column for
  reads as NaN. An empty list of frames is a \<open>ValueError\<close>.
\<close>

definition union_columns :: "'r dataframe list \<Rightarrow> string list" where
  "union_columns dfs =
     foldl (\<lambda>acc df. acc @ filter (\<lambda>c. c \<notin> set acc) (columns df)) [] dfs"

definition pd_concat :: "'r dataframe list \<Rightarrow> exn + 'r dataframe" where
  "pd_concat dfs =
     (if dfs = [] then Inl (ValueError ''No objects to concatenate'')
      else Inr \<lparr>columns = union_columns dfs, rows = concat (map rows dfs)\<rparr>)"

text \<open>The \<open>for\<close> loop: \<open>all_dfs\<close> is the accumulator.\<close>

fun load_loop ::
  "env \<Rightarrow> string list \<Rightarrow> table list \<Rightarrow> caches \<Rightarrow> (exn + table list) \<times> event list \<times> caches" where
  "load_loop env [] all_dfs c = (Inr all_dfs, [], c)"
| "load_loop env (country # rest) all_dfs c =
     (case load_country_data env country c of
        (Inl e, evs, c') \<Rightarrow> (Inl e, evs, c')
      | (Inr df, evs, c') \<Rightarrow>
          (case load_loop env rest (if \<not> df_empty df then all_dfs @ [df] else all_dfs) c' of
             (r, evs', c'') \<Rightarrow> (r, evs @ evs', c'')))"

definition load_all_countries_data_body ::
  "env \<Rightarrow> string list \<Rightarrow> caches \<Rightarrow> (exn + table) \<times> event list \<times> caches" where
  "load_all_countries_data_body env country_list c =
     (case load_loop env country_list [] c of
        (Inl e, evs, c') \<Rightarrow> (Inl e, evs, c')
      | (Inr all_dfs, evs, c') \<Rightarrow>
          (if all_dfs = [] then (Inr pd_DataFrame, evs, c')
           else (pd_concat all_dfs, evs, c')))"

definition default_country_list :: "string list" where
  "default_country_list = [''Benin'', ''Sierra Leone'', ''Togo'']"

definition load_all_countries_data ::
  "env \<Rightarrow> string list \<Rightarrow> caches \<Rightarrow> (exn + table) \<times> event list \<times> caches" where
  "load_all_countries_data env country_list c =
     (case all_cache c country_list of
        Some (df, msgs) \<Rightarrow> (Inr df, map StError msgs, c)
      | None \<Rightarrow>
          (case load_all_countries_data_body env country_list c of
             (Inr df, evs, c') \<Rightarrow>
               (Inr df, evs,
                c'\<lparr>all_cache := (all_cache c')(country_list \<mapsto> (df, st_errors evs))\<rparr>)
           | (Inl e, evs, c') \<Rightarrow> (Inl e, evs, c')))"

section \<open>The comparison box plot\<close>

text \<open>
  What \<open>px.box(df, x='Country', y=metric, ...)\<close> followed by
  \<open>update_layout(title_x=0.5)\<close> holds: one (x, y) point per row in row order, the title,
  the axis label and the title position. Plotly raises \<open>ValueError\<close> when \<open>x\<close> does not
  name a column.
\<close>

record figure =
  points :: "(cell \<times> cell) list"
  title :: string
  y_label :: string
  title_x :: rat

definition create_comparison_boxplot ::
  "table \<Rightarrow> string \<Rightarrow> string \<Rightarrow> exn + figure option" where
  "create_comparison_boxplot df_combined metric_name title_text =
     (if df_empty df_combined \<or> metric_name \<notin> set (columns df_combined) then Inr None
      else if ''Country'' \<notin> set (columns df_combined) then
        Inl (ValueError ''Value of x is not the name of a column in data_frame'')
      else Inr (Some
        \<lparr>points = map (\<lambda>r. (cell_at r ''Country'', cell_at r metric_name)) (rows df_combined),
         title = title_text,
         y_label = metric_name @ '' (Units)'',
         title_x = 1 / 2\<rparr>))"

section \<open>The ranking table\<close>














section \<open>What the loader and the aggregator are compared with\<close>

text \<open>
  The table the loader's body yields for a name, the tables that survive the aggregator's
  emptiness test, and the combined table: the surviving tables' rows, one table after the
  other.
\<close>

definition loaded :: "env \<Rightarrow> string \<Rightarrow> table" where
  "loaded env country_name =
     (case fst (load_country_data_body env country_name) of
        Inr df \<Rightarrow> df
      | Inl e \<Rightarrow> pd_DataFrame)"

definition surviving :: "env \<Rightarrow> string list \<Rightarrow> table list" where
  "surviving env country_list = filter (\<lambda>df. \<not> df_empty df) (map (loaded env) country_list)"

definition combined :: "env \<Rightarrow> string list \<Rightarrow> table" where
  "combined env country_list =
     (if surviving env country_list = [] then pd_DataFrame
      else \<lparr>columns = union_columns (surviving env country_list),
            rows = concat (map rows (surviving env country_list))\<rparr>)"

text \<open>
  The caches hold what the functions computed from the files as they are: every stored
  table is the one the body yields for its key.
\<close>

definition caches_ok :: "env \<Rightarrow> caches \<Rightarrow> bool" where
  "caches_ok env c =
     ((\<forall>k df msgs. country_cache c k = Some (df, msgs) \<longrightarrow> df = loaded env k) \<and>
      (\<forall>l df msgs. all_cache c l = Some (df, msgs) \<longrightarrow> df = combined env l))"

fun invoke_of :: "event \<Rightarrow> string option" where
  "invoke_of (Invoke n) = Some n"
| "invoke_of _ = None"

definition invoked :: "event list \<Rightarrow> string list" where
  "invoked evs = List.map_filter invoke_of evs"

definition file_accesses :: "event list \<Rightarrow> event list" where
  "file_accesses evs = filter is_file_access evs"



section \<open>Example inputs\<close>

definition row_of :: "string \<Rightarrow> string \<Rightarrow> rat \<Rightarrow> mrow" where
  "row_of ts c ghi = \<lparr>Timestamp = ts, Country = Some c, metrics = [(''GHI'', ghi)]\<rparr>"

definition table_X :: table where
  "table_X =
     \<lparr>columns = [''GHI'', ''Country''],
      rows = [row_of ''2021-08-09 06:00'' ''X'' 10,
              row_of ''2021-08-09 10:00'' ''X'' 60,
              row_of ''2021-08-09 12:00'' ''X'' 80]\<rparr>"



definition benin_file :: table where
  "benin_file =
     \<lparr>columns = [''GHI''],
      rows = [\<lparr>Timestamp = ''2021-08-09 00:01'', Country = None, metrics = [(''GHI'', 0)]\<rparr>,
              \<lparr>Timestamp = ''2021-08-09 12:00'', Country = None, metrics = [(''GHI'', 812)]\<rparr>]\<rparr>"

definition togo_file :: table where
  "togo_file =
     \<lparr>columns = [''GHI''],
      rows = [\<lparr>Timestamp = ''2021-10-25 12:00'', Country = None, metrics = [(''GHI'', 640)]\<rparr>]\<rparr>"

text \<open>
  An installation with Benin's file beside the module, Togo's file under the working
  directory only, and Sierra Leone's file present but unparsable.
\<close>

definition env0 :: env where
  "env0 =
     \<lparr>module_dir = ''/srv/app'',
      path_exists = (\<lambda>p. p \<in> {''/srv/app/../data/benin_clean.csv'',
                              ''data/togo_clean.csv'',
                              ''data/sierraleone_clean.csv''}),
      read_csv = (\<lambda>p. if p = ''/srv/app/../data/benin_clean.csv'' then Inr benin_file
                       else if p = ''data/togo_clean.csv'' then Inr togo_file
                       else if p = ''data/sierraleone_clean.csv''
                         then Inl (Exception ''Error tokenizing data'')
                       else Inl (FileNotFoundError ''No such file or directory''))\<rparr>"

text \<open>An installation with no data files at all.\<close>

definition env_bare :: env where
  "env_bare =
     \<lparr>module_dir = ''/srv/app'',
      path_exists = (\<lambda>p. False),
      read_csv = (\<lambda>p. Inl (FileNotFoundError ''No such file or directory''))\<rparr>"




section \<open>Facts about the loader and the aggregator\<close>

lemma try_read_csv_Inr:
  "read_csv env p = Inr t \<Longrightarrow> try_read_csv env n f p = (Inr (set_Country t n), [ReadCsv p])"
  by (simp add: try_read_csv_def)

lemma try_read_csv_Inl:
  "read_csv env p = Inl e \<Longrightarrow> \<exists>m. try_read_csv env n f p = (Inr pd_DataFrame, [ReadCsv p, StError m])"
  by (cases e) (simp_all add: try_read_csv_def)

lemma try_read_csv_cases:
  "(\<exists>t. read_csv env p = Inr t \<and> try_read_csv env n f p = (Inr (set_Country t n), [ReadCsv p])) \<or>
   (\<exists>e m. read_csv env p = Inl e \<and> try_read_csv env n f p = (Inr pd_DataFrame, [ReadCsv p, StError m]))"
proof (cases "read_csv env p")
  case (Inl e)
  then show ?thesis using try_read_csv_Inl [OF Inl, of n f] by blast
next
  case (Inr t)
  then show ?thesis using try_read_csv_Inr [OF Inr, of n f] by blast
qed

lemma invoked_simps [simp]:
  "invoked [] = []" "invoked (Invoke n # evs) = n # invoked evs"
  "invoked (StError m # evs) = invoked evs" "invoked (Exists p # evs) = invoked evs"
  "invoked (ReadCsv p # evs) = invoked evs"
  by (simp_all add: invoked_def List.map_filter_simps)

lemma invoked_append [simp]: "invoked (xs @ ys) = invoked xs @ invoked ys"
  by (simp add: invoked_def List.map_filter_def)

lemma invoked_replay [simp]: "invoked (map StError msgs) = []"
  by (induction msgs) auto

lemma file_accesses_replay [simp]: "file_accesses (map StError msgs) = []"
  by (induction msgs) (auto simp: file_accesses_def)

lemma try_read_csv_shape:
  "\<exists>df evs. try_read_csv env n f p = (Inr df, evs) \<and> invoked evs = [] \<and>
     (df = pd_DataFrame \<or> (\<exists>q t. read_csv env q = Inr t \<and> df = set_Country t n))"
  using try_read_csv_cases [of env p n f] by fastforce

lemma body_cases:
  "\<exists>df evs. load_country_data_body env n = (Inr df, evs) \<and> invoked evs = [] \<and>
     (df = pd_DataFrame \<or> (\<exists>p t. read_csv env p = Inr t \<and> df = set_Country t n))"
proof (cases "map_of filename_map n")
  case None
  then show ?thesis by (simp add: load_country_data_body_def)
next
  case (Some f)
  obtain d1 e1 where a: "try_read_csv env n f (file_path_relative env f) = (Inr d1, e1)"
    "invoked e1 = []" "d1 = pd_DataFrame \<or> (\<exists>q t. read_csv env q = Inr t \<and> d1 = set_Country t n)"
    using try_read_csv_shape [of env n f "file_path_relative env f"] by blast
  obtain d2 e2 where b: "try_read_csv env n f (file_path_from_root f) = (Inr d2, e2)"
    "invoked e2 = []" "d2 = pd_DataFrame \<or> (\<exists>q t. read_csv env q = Inr t \<and> d2 = set_Country t n)"
    using try_read_csv_shape [of env n f "file_path_from_root f"] by blast
  show ?thesis
  proof (cases "path_exists env (file_path_relative env f)")
    case True
    then show ?thesis using Some a by (simp add: load_country_data_body_def)
  next
    case False
    then show ?thesis using Some b by (simp add: load_country_data_body_def)
  qed
qed

lemma body_loaded: "\<exists>evs. load_country_data_body env n = (Inr (loaded env n), evs) \<and> invoked evs = []"
proof -
  obtain df evs where "load_country_data_body env n = (Inr df, evs)" "invoked evs = []"
    using body_cases [of env n] by blast
  then show ?thesis by (simp add: loaded_def)
qed

lemma loaded_cases:
  "loaded env n = pd_DataFrame \<or> (\<exists>p t. read_csv env p = Inr t \<and> loaded env n = set_Country t n)"
proof -
  obtain df evs where "load_country_data_body env n = (Inr df, evs)"
    "df = pd_DataFrame \<or> (\<exists>p t. read_csv env p = Inr t \<and> df = set_Country t n)"
    using body_cases [of env n] by blast
  then show ?thesis by (simp add: loaded_def)
qed

lemma load_country_data_ok:
  assumes "caches_ok env c"
  shows "\<exists>evs c'. load_country_data env n c = (Inr (loaded env n), evs, c') \<and> caches_ok env c'
            \<and> invoked evs = [n]"
proof (cases "country_cache c n")
  case None
  obtain evs where b: "load_country_data_body env n = (Inr (loaded env n), evs)"
    and i: "invoked evs = []"
    using body_loaded by blast
  show ?thesis using None b i assms
    by (auto simp: load_country_data_def caches_ok_def)
next
  case (Some a)
  then show ?thesis using assms
    by (cases a) (auto simp: load_country_data_def caches_ok_def)
qed

lemma load_loop_ok:
  "caches_ok env c \<Longrightarrow>
   \<exists>evs c'. load_loop env l acc c = (Inr (acc @ surviving env l), evs, c') \<and> caches_ok env c'
       \<and> invoked evs = l"
proof (induction l arbitrary: acc c)
  case Nil
  then show ?case by (simp add: surviving_def)
next
  case (Cons n l)
  obtain evs c' where a: "load_country_data env n c = (Inr (loaded env n), evs, c')"
    and ok: "caches_ok env c'" and i: "invoked evs = [n]"
    using load_country_data_ok [OF Cons.prems] by blast
  obtain evs' c'' where b: "load_loop env l (if \<not> df_empty (loaded env n) then acc @ [loaded env n] else acc) c'
      = (Inr ((if \<not> df_empty (loaded env n) then acc @ [loaded env n] else acc) @ surviving env l), evs', c'')"
    and ok': "caches_ok env c''" and i': "invoked evs' = l"
    using Cons.IH [OF ok] by blast
  show ?case using a b ok' i i' by (auto simp: surviving_def)
qed

lemma load_all_body_ok:
  assumes "caches_ok env c"
  shows "\<exists>evs c'. load_all_countries_data_body env l c = (Inr (combined env l), evs, c')
      \<and> caches_ok env c' \<and> invoked evs = l"
proof -
  obtain evs c' where a: "load_loop env l [] c = (Inr ([] @ surviving env l), evs, c')"
    and ok: "caches_ok env c'" and i: "invoked evs = l"
    using load_loop_ok [OF assms] by blast
  show ?thesis using a ok i
    by (auto simp: load_all_countries_data_body_def combined_def pd_concat_def)
qed

lemma load_all_ok:
  assumes "caches_ok env c"
  shows "\<exists>evs c'. load_all_countries_data env l c = (Inr (combined env l), evs, c')
      \<and> caches_ok env c'"
proof (cases "all_cache c l")
  case None
  obtain evs c' where a: "load_all_countries_data_body env l c = (Inr (combined env l), evs, c')"
    and ok: "caches_ok env c'"
    using load_all_body_ok [OF assms] by blast
  show ?thesis using None a ok by (auto simp: load_all_countries_data_def caches_ok_def)
next
  case (Some a)
  then show ?thesis using assms
    by (cases a) (auto simp: load_all_countries_data_def caches_ok_def)
qed

lemma loaded_empty_rows: "df_empty (loaded env n) \<Longrightarrow> rows (loaded env n) = []"
  using loaded_cases [of env n]
  by (auto simp: df_empty_def pd_DataFrame_def set_Country_def split: if_splits)

lemma rows_combined: "rows (combined env l) = concat (map (\<lambda>n. rows (loaded env n)) l)"
proof -
  have "concat (map rows (surviving env l)) = concat (map (\<lambda>n. rows (loaded env n)) l)"
    by (induction l) (auto simp: surviving_def loaded_empty_rows)
  moreover have "surviving env l = [] \<Longrightarrow> concat (map rows (surviving env l)) = []" by simp
  ultimately show ?thesis by (auto simp: combined_def pd_DataFrame_def)
qed

lemma set_Country_rows:
  "map Timestamp (rows (set_Country t n)) = map Timestamp (rows t)"
  "map metrics (rows (set_Country t n)) = map metrics (rows t)"
  "\<forall>r \<in> set (rows (set_Country t n)). Country r = Some n"
  "''Country'' \<in> set (columns (set_Country t n))"
  by (auto simp: set_Country_def)

lemma combined_all_empty:
  "(\<forall>n \<in> set l. df_empty (loaded env n)) \<Longrightarrow> combined env l = pd_DataFrame"
  by (auto simp: combined_def surviving_def filter_empty_conv)

lemma set_union_columns_foldl:
  "set (foldl (\<lambda>acc df. acc @ filter (\<lambda>c. c \<notin> set acc) (columns df)) a dfs)
     = set a \<union> (\<Union>df \<in> set dfs. set (columns df))"
  by (induction dfs arbitrary: a) auto

lemma set_union_columns: "set (union_columns dfs) = (\<Union>df \<in> set dfs. set (columns df))"
  by (simp add: union_columns_def set_union_columns_foldl)

lemma loaded_has_Country:
  "\<not> df_empty (loaded env n) \<Longrightarrow> ''Country'' \<in> set (columns (loaded env n))"
  using loaded_cases [of env n] by (auto simp: df_empty_def pd_DataFrame_def set_Country_rows)

lemma combined_has_Country:
  assumes "\<not> df_empty (combined env l)"
  shows "''Country'' \<in> set (columns (combined env l))"
proof -
  have ne: "surviving env l \<noteq> []"
    using assms by (auto simp: combined_def df_empty_def pd_DataFrame_def)
  then obtain df where df: "df \<in> set (surviving env l)" by (cases "surviving env l") auto
  then obtain n where "df = loaded env n" "\<not> df_empty df" by (auto simp: surviving_def)
  then have "''Country'' \<in> set (columns df)" using loaded_has_Country by blast
  then show ?thesis using ne df by (auto simp: combined_def set_union_columns)
qed

section \<open>Facts about the ranking\<close>
















section \<open>Facts about the caches and the example inputs\<close>

lemma env0_paths:
  "file_path_relative env0 f = (if take 1 f = ''/'' then f else ''/srv/app/../data/'' @ f)"
  "file_path_relative env_bare f = (if take 1 f = ''/'' then f else ''/srv/app/../data/'' @ f)"
  "file_path_from_root f = (if take 1 f = ''/'' then f else ''data/'' @ f)"
  by (simp_all add: file_path_relative_def file_path_from_root_def path_join_def env0_def env_bare_def)

lemma caches_ok_fresh: "caches_ok env no_caches"
  by (simp add: caches_ok_def no_caches_def)

lemma body_Benin:
  "load_country_data_body env0 ''Benin'' =
     (Inr (set_Country benin_file ''Benin''),
      [Exists ''/srv/app/../data/benin_clean.csv'', ReadCsv ''/srv/app/../data/benin_clean.csv''])"
  by (simp add: load_country_data_body_def filename_map_def env0_paths try_read_csv_def)
     (simp add: env0_def)

lemma body_Togo:
  "load_country_data_body env0 ''Togo'' =
     (Inr (set_Country togo_file ''Togo''),
      [Exists ''/srv/app/../data/togo_clean.csv'', Exists ''data/togo_clean.csv'',
       ReadCsv ''data/togo_clean.csv''])"
  by (simp add: load_country_data_body_def filename_map_def env0_paths try_read_csv_def)
     (simp add: env0_def)

lemma body_Sierra_Leone:
  "load_country_data_body env0 ''Sierra Leone'' =
     (Inr pd_DataFrame,
      [Exists ''/srv/app/../data/sierraleone_clean.csv'', Exists ''data/sierraleone_clean.csv'',
       ReadCsv ''data/sierraleone_clean.csv'',
       StError ''Error loading data for Sierra Leone: Error tokenizing data''])"
  by (simp add: load_country_data_body_def filename_map_def env0_paths try_read_csv_def)
     (simp add: env0_def)

lemma load_country_data_hit:
  "country_cache c n = Some (df, msgs) \<Longrightarrow>
     load_country_data env n c = (Inr df, Invoke n # map StError msgs, c)"
  by (simp add: load_country_data_def)

lemma file_accesses_Invoke [simp]: "file_accesses (Invoke n # evs) = file_accesses evs"
  by (simp add: file_accesses_def)

lemma file_accesses_simps [simp]:
  "file_accesses [] = []"
  "file_accesses (Exists p # evs) = Exists p # file_accesses evs"
  "file_accesses (ReadCsv p # evs) = ReadCsv p # file_accesses evs"
  "file_accesses (StError m # evs) = file_accesses evs"
  by (simp_all add: file_accesses_def)

lemma st_errors_simps [simp]:
  "st_errors [] = []"
  "st_errors (Exists p # evs) = st_errors evs"
  "st_errors (ReadCsv p # evs) = st_errors evs"
  "st_errors (Invoke n # evs) = st_errors evs"
  "st_errors (StError m # evs) = m # st_errors evs"
  by (simp_all add: st_errors_def List.map_filter_simps)

lemma filename_map_entries:
  "(n, f) \<in> set filename_map \<Longrightarrow> map_of filename_map n = Some f \<and> take 1 f \<noteq> ''/''"
  by (auto simp: filename_map_def)

lemma load_country_data_keeps:
  "country_cache c k = Some v \<Longrightarrow>
     country_cache (snd (snd (load_country_data env n c))) k = Some v"
  by (cases "country_cache c n"; cases "load_country_data_body env n";
      cases "fst (load_country_data_body env n)")
     (auto simp: load_country_data_def)

lemma load_loop_keeps:
  "country_cache c k = Some v \<Longrightarrow>
     country_cache (snd (snd (load_loop env l acc c))) k = Some v"
proof (induction l arbitrary: acc c)
  case Nil
  then show ?case by simp
next
  case (Cons n l)
  obtain r evs c' where a: "load_country_data env n c = (r, evs, c')"
    by (cases "load_country_data env n c") auto
  have k: "country_cache c' k = Some v"
    using load_country_data_keeps [OF Cons.prems, of env n] a by simp
  show ?case
  proof (cases r)
    case (Inl e)
    then show ?thesis using a k by simp
  next
    case (Inr df)
    obtain r' evs' c'' where
      b: "load_loop env l (if \<not> df_empty df then acc @ [df] else acc) c' = (r', evs', c'')"
      by (cases "load_loop env l (if \<not> df_empty df then acc @ [df] else acc) c'") auto
    have "country_cache c'' k = Some v"
      using Cons.IH [OF k, of "if \<not> df_empty df then acc @ [df] else acc"] b by simp
    then show ?thesis using a Inr b by simp
  qed
qed

lemma load_all_body_keeps:
  "country_cache c k = Some v \<Longrightarrow>
     country_cache (snd (snd (load_all_countries_data_body env l c))) k = Some v"
  using load_loop_keeps [of c k v env l "[]"]
  by (auto simp: load_all_countries_data_body_def split: prod.splits sum.splits)

lemma load_all_keeps:
  "country_cache c k = Some v \<Longrightarrow>
     country_cache (snd (snd (load_all_countries_data env l c))) k = Some v"
  using load_all_body_keeps [of c k v env l]
  by (auto simp: load_all_countries_data_def split: prod.splits sum.splits option.splits)

lemma loaded_env0:
  "loaded env0 ''Benin'' = set_Country benin_file ''Benin''"
  "loaded env0 ''Sierra Leone'' = pd_DataFrame"
  "loaded env0 ''Togo'' = set_Country togo_file ''Togo''"
  by (simp_all add: loaded_def body_Benin body_Togo body_Sierra_Leone)









section \<open>The claims\<close>



text \<open>
  Claim C2. The aggregator calls the loader once for each entity of the list, in list
  order; it leaves out the tables that are empty and concatenates the others, so the
  combined table holds each entity's rows together, in list order and in the order of
  the file, with their timestamps as read; when every table is empty the result is the
  empty table.
\<close>

theorem load_all_combines:
  assumes "caches_ok env c"
  shows
    "(\<exists>evs c'. load_all_countries_data_body env country_list c
                  = (Inr (combined env country_list), evs, c')
               \<and> invoked evs = country_list)
     \<and> fst (load_all_countries_data env country_list c) = Inr (combined env country_list)
     \<and> combined env country_list =
         (let dfs = filter (\<lambda>df. \<not> df_empty df) (map (loaded env) country_list)
          in if dfs = [] then pd_DataFrame
             else \<lparr>columns = union_columns dfs, rows = concat (map rows dfs)\<rparr>)
     \<and> rows (combined env country_list) = concat (map (\<lambda>n. rows (loaded env n)) country_list)
     \<and> (\<forall>n. fst (load_country_data_body env n) = Inr (loaded env n)
            \<and> (loaded env n = pd_DataFrame
                \<or> (\<exists>p t. read_csv env p = Inr t
                      \<and> rows (loaded env n) = map (\<lambda>r. r\<lparr>Country := Some n\<rparr>) (rows t)
                      \<and> map Timestamp (rows (loaded env n)) = map Timestamp (rows t))))
     \<and> ((\<forall>n \<in> set country_list. df_empty (loaded env n)) \<longrightarrow>
           combined env country_list = pd_DataFrame)"
proof -
  have a: "\<exists>evs c'. load_all_countries_data_body env country_list c
                  = (Inr (combined env country_list), evs, c')
               \<and> invoked evs = country_list"
    using load_all_body_ok [OF assms, of country_list] by blast
  have b: "fst (load_all_countries_data env country_list c) = Inr (combined env country_list)"
    using load_all_ok [OF assms, of country_list] by auto
  have c: "combined env country_list =
         (let dfs = filter (\<lambda>df. \<not> df_empty df) (map (loaded env) country_list)
          in if dfs = [] then pd_DataFrame
             else \<lparr>columns = union_columns dfs, rows = concat (map rows dfs)\<rparr>)"
    by (simp add: combined_def surviving_def Let_def)
  have d: "fst (load_country_data_body env n) = Inr (loaded env n)
            \<and> (loaded env n = pd_DataFrame
                \<or> (\<exists>p t. read_csv env p = Inr t
                      \<and> rows (loaded env n) = map (\<lambda>r. r\<lparr>Country := Some n\<rparr>) (rows t)
                      \<and> map Timestamp (rows (loaded env n)) = map Timestamp (rows t)))" for n
  proof -
    have "fst (load_country_data_body env n) = Inr (loaded env n)"
      using body_loaded [of env n] by auto
    moreover have "loaded env n = pd_DataFrame
                \<or> (\<exists>p t. read_csv env p = Inr t
                      \<and> rows (loaded env n) = map (\<lambda>r. r\<lparr>Country := Some n\<rparr>) (rows t)
                      \<and> map Timestamp (rows (loaded env n)) = map Timestamp (rows t))"
    proof (cases "loaded env n = pd_DataFrame")
      case True
      then show ?thesis by simp
    next
      case False
      then obtain p t where pt: "read_csv env p = Inr t" "loaded env n = set_Country t n"
        using loaded_cases [of env n] by blast
      have "rows (loaded env n) = map (\<lambda>r. r\<lparr>Country := Some n\<rparr>) (rows t)"
        using pt(2) by (simp add: set_Country_def)
      moreover have "map Timestamp (rows (loaded env n)) = map Timestamp (rows t)"
        using pt(2) by (simp add: set_Country_rows)
      ultimately show ?thesis using pt(1) by blast
    qed
    ultimately show ?thesis by blast
  qed
  show ?thesis
    using a b c d rows_combined [of env country_list] combined_all_empty [of country_list env]
    by blast
qed

theorem load_all_combines_witness:
  "caches_ok env0 no_caches
   \<and> fst (load_all_countries_data_body env0 default_country_list no_caches) =
       Inr \<lparr>columns = [''GHI'', ''Country''],
            rows = [\<lparr>Timestamp = ''2021-08-09 00:01'', Country = Some ''Benin'',
                      metrics = [(''GHI'', 0)]\<rparr>,
                    \<lparr>Timestamp = ''2021-08-09 12:00'', Country = Some ''Benin'',
                      metrics = [(''GHI'', 812)]\<rparr>,
                    \<lparr>Timestamp = ''2021-10-25 12:00'', Country = Some ''Togo'',
                      metrics = [(''GHI'', 640)]\<rparr>]\<rparr>
   \<and> invoked (fst (snd (load_all_countries_data_body env0 default_country_list no_caches)))
       = [''Benin'', ''Sierra Leone'', ''Togo'']
   \<and> df_empty (loaded env_bare ''Benin'') \<and> df_empty (loaded env_bare ''Togo'')
   \<and> fst (load_all_countries_data_body env_bare [''Benin'', ''Togo''] no_caches) = Inr pd_DataFrame"
proof -
  have 1: "combined env0 default_country_list =
       \<lparr>columns = [''GHI'', ''Country''],
            rows = [\<lparr>Timestamp = ''2021-08-09 00:01'', Country = Some ''Benin'',
                      metrics = [(''GHI'', 0)]\<rparr>,
                    \<lparr>Timestamp = ''2021-08-09 12:00'', Country = Some ''Benin'',
                      metrics = [(''GHI'', 812)]\<rparr>,
                    \<lparr>Timestamp = ''2021-10-25 12:00'', Country = Some ''Togo'',
                      metrics = [(''GHI'', 640)]\<rparr>]\<rparr>"
    by (simp add: combined_def surviving_def default_country_list_def loaded_env0
        set_Country_def benin_file_def togo_file_def df_empty_def pd_DataFrame_def union_columns_def)
  have 2: "loaded env_bare n = pd_DataFrame" for n
    using loaded_cases [of env_bare n] by (simp add: env_bare_def)
  have 3: "df_empty (loaded env_bare n)" for n
    by (simp add: 2 df_empty_def pd_DataFrame_def)
  have 4: "combined env_bare [''Benin'', ''Togo''] = pd_DataFrame"
    by (simp add: combined_def surviving_def 3)
  have 5: "fst (load_all_countries_data_body env0 default_country_list no_caches)
             = Inr (combined env0 default_country_list)
     \<and> invoked (fst (snd (load_all_countries_data_body env0 default_country_list no_caches)))
         = default_country_list"
    using load_all_combines [OF caches_ok_fresh, of env0 default_country_list, THEN conjunct1]
    by auto
  have 6: "fst (load_all_countries_data_body env_bare [''Benin'', ''Togo''] no_caches)
             = Inr (combined env_bare [''Benin'', ''Togo''])"
    using load_all_combines [OF caches_ok_fresh, of env_bare "[''Benin'', ''Togo'']", THEN conjunct1]
    by auto
  show ?thesis
    using 5 6 caches_ok_fresh [of env0] 3 [of "''Benin''"] 3 [of "''Togo''"]
    by (simp add: 1 [unfolded default_country_list_def] 4 default_country_list_def)
qed





text \<open>
  Claim C5. For a name outside Benin, Sierra Leone and Togo the loader returns an empty
  table, raises nothing, and neither probes nor reads any file.
\<close>

theorem load_unknown_entity:
  assumes "country_name \<notin> {''Benin'', ''Sierra Leone'', ''Togo''}"
  shows "load_country_data_body env country_name = (Inr pd_DataFrame, [])
    \<and> (caches_ok env c \<longrightarrow>
         (\<exists>evs c'. load_country_data env country_name c = (Inr pd_DataFrame, evs, c')
             \<and> file_accesses evs = []))"
proof -
  have none: "map_of filename_map country_name = None"
    using assms by (simp add: filename_map_def)
  then have body: "load_country_data_body env country_name = (Inr pd_DataFrame, [])"
    by (simp add: load_country_data_body_def)
  then have l: "loaded env country_name = pd_DataFrame" by (simp add: loaded_def)
  have "\<exists>evs c'. load_country_data env country_name c = (Inr pd_DataFrame, evs, c')
             \<and> file_accesses evs = []" if ok: "caches_ok env c"
  proof (cases "country_cache c country_name")
    case None
    then show ?thesis using body by (simp add: load_country_data_def file_accesses_def)
  next
    case (Some a)
    obtain df msgs where a: "a = (df, msgs)" by (cases a)
    have "df = pd_DataFrame" using ok Some a l by (auto simp: caches_ok_def)
    then show ?thesis using load_country_data_hit [of c country_name df msgs env] Some a by simp
  qed
  then show ?thesis using body by blast
qed

theorem load_unknown_entity_witness:
  "''Atlantis'' \<notin> {''Benin'', ''Sierra Leone'', ''Togo''}
   \<and> load_country_data_body env0 ''Atlantis'' = (Inr pd_DataFrame, [])
   \<and> caches_ok env0 no_caches
   \<and> fst (load_country_data env0 ''Atlantis'' no_caches) = Inr pd_DataFrame
   \<and> file_accesses (fst (snd (load_country_data env0 ''Atlantis'' no_caches))) = []"
  using load_unknown_entity [of "''Atlantis''" env0 no_caches] caches_ok_fresh [of env0]
  by auto

text \<open>
  Claim C6. For a known entity the loader probes the path beside the module first and the
  path under the working directory second, and only if the first does not exist; it reads
  the first that exists. If neither exists it returns an empty table and emits an error
  message. The names of the files are fixed.
\<close>

theorem load_file_resolution:
  assumes "(country_name, filename) \<in> set filename_map"
  shows
    "(path_exists env (file_path_relative env filename) \<longrightarrow>
        file_accesses (snd (load_country_data_body env country_name)) =
          [Exists (file_path_relative env filename), ReadCsv (file_path_relative env filename)]
        \<and> (\<forall>t. read_csv env (file_path_relative env filename) = Inr t \<longrightarrow>
              fst (load_country_data_body env country_name) = Inr (set_Country t country_name)))
     \<and> (\<not> path_exists env (file_path_relative env filename)
          \<and> path_exists env (file_path_from_root filename) \<longrightarrow>
        file_accesses (snd (load_country_data_body env country_name)) =
          [Exists (file_path_relative env filename), Exists (file_path_from_root filename),
           ReadCsv (file_path_from_root filename)]
        \<and> (\<forall>t. read_csv env (file_path_from_root filename) = Inr t \<longrightarrow>
              fst (load_country_data_body env country_name) = Inr (set_Country t country_name)))
     \<and> (\<not> path_exists env (file_path_relative env filename)
          \<and> \<not> path_exists env (file_path_from_root filename) \<longrightarrow>
        load_country_data_body env country_name =
          (Inr pd_DataFrame,
           [Exists (file_path_relative env filename), Exists (file_path_from_root filename),
            StError (''Could not determine path for data file '' @ quoted filename
                     @ ''. Checked relative and root paths.'')]))
     \<and> file_path_from_root filename = ''data/'' @ filename
     \<and> (module_dir env \<noteq> [] \<and> last (module_dir env) \<noteq> CHR ''/'' \<longrightarrow>
          file_path_relative env filename = module_dir env @ ''/../data/'' @ filename)
     \<and> (country_name, filename) \<in>
          {(''Benin'', ''benin_clean.csv''), (''Sierra Leone'', ''sierraleone_clean.csv''),
           (''Togo'', ''togo_clean.csv'')}"
proof -
  have m: "map_of filename_map country_name = Some filename" and nf: "take 1 filename \<noteq> ''/''"
    using filename_map_entries [OF assms] by simp_all
  have a: "path_exists env (file_path_relative env filename) \<Longrightarrow>
        file_accesses (snd (load_country_data_body env country_name)) =
          [Exists (file_path_relative env filename), ReadCsv (file_path_relative env filename)]
        \<and> (\<forall>t. read_csv env (file_path_relative env filename) = Inr t \<longrightarrow>
              fst (load_country_data_body env country_name) = Inr (set_Country t country_name))"
    using m try_read_csv_cases [of env "file_path_relative env filename" country_name filename]
    by (auto simp: load_country_data_body_def)
  have b: "\<not> path_exists env (file_path_relative env filename) \<Longrightarrow>
          path_exists env (file_path_from_root filename) \<Longrightarrow>
        file_accesses (snd (load_country_data_body env country_name)) =
          [Exists (file_path_relative env filename), Exists (file_path_from_root filename),
           ReadCsv (file_path_from_root filename)]
        \<and> (\<forall>t. read_csv env (file_path_from_root filename) = Inr t \<longrightarrow>
              fst (load_country_data_body env country_name) = Inr (set_Country t country_name))"
    using m try_read_csv_cases [of env "file_path_from_root filename" country_name filename]
    by (auto simp: load_country_data_body_def)
  have c: "\<not> path_exists env (file_path_relative env filename) \<Longrightarrow>
          \<not> path_exists env (file_path_from_root filename) \<Longrightarrow>
        load_country_data_body env country_name =
          (Inr pd_DataFrame,
           [Exists (file_path_relative env filename), Exists (file_path_from_root filename),
            StError (''Could not determine path for data file '' @ quoted filename
                     @ ''. Checked relative and root paths.'')])"
    using m by (simp add: load_country_data_body_def)
  have d: "file_path_from_root filename = ''data/'' @ filename"
    using nf by (simp add: file_path_from_root_def path_join_def)
  have e: "file_path_relative env filename = module_dir env @ ''/../data/'' @ filename"
    if "module_dir env \<noteq> []" "last (module_dir env) \<noteq> CHR ''/''"
    using nf that by (simp add: file_path_relative_def path_join_def)
  have f: "(country_name, filename) \<in>
          {(''Benin'', ''benin_clean.csv''), (''Sierra Leone'', ''sierraleone_clean.csv''),
           (''Togo'', ''togo_clean.csv'')}"
    using assms by (simp add: filename_map_def)
  show ?thesis using a b c d e f by blast
qed

theorem load_file_resolution_witness:
  "(''Benin'', ''benin_clean.csv'') \<in> set filename_map
   \<and> path_exists env0 (file_path_relative env0 ''benin_clean.csv'')
   \<and> read_csv env0 (file_path_relative env0 ''benin_clean.csv'') = Inr benin_file
   \<and> file_path_relative env0 ''benin_clean.csv'' = ''/srv/app/../data/benin_clean.csv''
   \<and> fst (load_country_data_body env0 ''Benin'') = Inr (set_Country benin_file ''Benin'')
   \<and> file_accesses (snd (load_country_data_body env0 ''Benin'')) =
       [Exists ''/srv/app/../data/benin_clean.csv'', ReadCsv ''/srv/app/../data/benin_clean.csv'']
   \<and> (''Togo'', ''togo_clean.csv'') \<in> set filename_map
   \<and> \<not> path_exists env0 (file_path_relative env0 ''togo_clean.csv'')
   \<and> path_exists env0 (file_path_from_root ''togo_clean.csv'')
   \<and> fst (load_country_data_body env0 ''Togo'') = Inr (set_Country togo_file ''Togo'')
   \<and> file_accesses (snd (load_country_data_body env0 ''Togo'')) =
       [Exists ''/srv/app/../data/togo_clean.csv'', Exists ''data/togo_clean.csv'',
        ReadCsv ''data/togo_clean.csv'']
   \<and> \<not> path_exists env_bare (file_path_relative env_bare ''benin_clean.csv'')
   \<and> \<not> path_exists env_bare (file_path_from_root ''benin_clean.csv'')
   \<and> fst (load_country_data_body env_bare ''Benin'') = Inr pd_DataFrame
   \<and> st_errors (snd (load_country_data_body env_bare ''Benin'')) =
       [''Could not determine path for data file '' @ quoted ''benin_clean.csv''
        @ ''. Checked relative and root paths.'']"
proof -
  have b: "(''Benin'', ''benin_clean.csv'') \<in> set filename_map"
    and t: "(''Togo'', ''togo_clean.csv'') \<in> set filename_map"
    by (simp_all add: filename_map_def)
  have e0: "path_exists env0 ''/srv/app/../data/benin_clean.csv''"
    "read_csv env0 ''/srv/app/../data/benin_clean.csv'' = Inr benin_file"
    "\<not> path_exists env0 ''/srv/app/../data/togo_clean.csv''"
    "path_exists env0 ''data/togo_clean.csv''"
    "read_csv env0 ''data/togo_clean.csv'' = Inr togo_file"
    by (simp_all add: env0_def)
  have eb: "\<not> path_exists env_bare p" for p
    by (simp add: env_bare_def)
  have 1: "file_path_relative env0 ''benin_clean.csv'' = ''/srv/app/../data/benin_clean.csv''
    \<and> fst (load_country_data_body env0 ''Benin'') = Inr (set_Country benin_file ''Benin'')
    \<and> file_accesses (snd (load_country_data_body env0 ''Benin'')) =
        [Exists ''/srv/app/../data/benin_clean.csv'', ReadCsv ''/srv/app/../data/benin_clean.csv'']"
    using load_file_resolution [OF b, of env0] e0 by (simp add: env0_paths)
  have 2: "fst (load_country_data_body env0 ''Togo'') = Inr (set_Country togo_file ''Togo'')
    \<and> file_accesses (snd (load_country_data_body env0 ''Togo'')) =
        [Exists ''/srv/app/../data/togo_clean.csv'', Exists ''data/togo_clean.csv'',
         ReadCsv ''data/togo_clean.csv'']"
    using load_file_resolution [OF t, of env0] e0 by (simp add: env0_paths)
  have 3: "load_country_data_body env_bare ''Benin'' =
      (Inr pd_DataFrame,
       [Exists ''/srv/app/../data/benin_clean.csv'', Exists ''data/benin_clean.csv'',
        StError (''Could not determine path for data file '' @ quoted ''benin_clean.csv''
                 @ ''. Checked relative and root paths.'')])"
    using load_file_resolution [OF b, of env_bare] eb by (simp add: env0_paths)
  show ?thesis
    using 1 2 b t e0 eb by (simp add: env0_paths 3)
qed

text \<open>
  Claim C7. The loader never lets an exception out: its body and the cached function
  always return a table, and when the read of the chosen file fails the table is empty
  and an error message has been emitted.
\<close>

theorem load_never_raises:
  "(\<exists>df evs. load_country_data_body env country_name = (Inr df, evs) \<and>
       (\<forall>p e. ReadCsv p \<in> set evs \<and> read_csv env p = Inl e \<longrightarrow>
            df = pd_DataFrame \<and> st_errors evs \<noteq> []))
   \<and> (\<exists>df evs c'. load_country_data env country_name c = (Inr df, evs, c'))"
proof -
  have t: "\<exists>df evs. try_read_csv env country_name f q = (Inr df, evs) \<and>
       (\<forall>p e. ReadCsv p \<in> set (pre @ evs) \<and> read_csv env p = Inl e \<longrightarrow>
            df = pd_DataFrame \<and> st_errors (pre @ evs) \<noteq> [])"
    if "pre = [Exists a] \<or> pre = [Exists a, Exists b]" for f q pre a b
    using try_read_csv_cases [of env q country_name f] that by auto
  have body: "\<exists>df evs. load_country_data_body env country_name = (Inr df, evs) \<and>
       (\<forall>p e. ReadCsv p \<in> set evs \<and> read_csv env p = Inl e \<longrightarrow>
            df = pd_DataFrame \<and> st_errors evs \<noteq> [])"
  proof (cases "map_of filename_map country_name")
    case None
    then show ?thesis by (simp add: load_country_data_body_def)
  next
    case (Some f)
    show ?thesis
      using Some
        t [of "[Exists (file_path_relative env f)]" "file_path_relative env f" _ f "file_path_relative env f"]
        t [of "[Exists (file_path_relative env f), Exists (file_path_from_root f)]"
              "file_path_relative env f" "file_path_from_root f" f "file_path_from_root f"]
      by (auto simp: load_country_data_body_def)
  qed
  then obtain df evs where b: "load_country_data_body env country_name = (Inr df, evs)" by blast
  have "\<exists>df evs c'. load_country_data env country_name c = (Inr df, evs, c')"
    using b by (cases "country_cache c country_name") (auto simp: load_country_data_def)
  then show ?thesis using body by blast
qed

theorem load_never_raises_witness:
  "load_country_data_body env0 ''Sierra Leone'' =
     (Inr pd_DataFrame,
      [Exists ''/srv/app/../data/sierraleone_clean.csv'', Exists ''data/sierraleone_clean.csv'',
       ReadCsv ''data/sierraleone_clean.csv'',
       StError ''Error loading data for Sierra Leone: Error tokenizing data''])
   \<and> read_csv env0 ''data/sierraleone_clean.csv'' = Inl (Exception ''Error tokenizing data'')
   \<and> fst (load_country_data env0 ''Sierra Leone'' no_caches) = Inr pd_DataFrame"
  using load_never_raises [of env0 "''Sierra Leone''" no_caches] body_Sierra_Leone
  by (simp add: load_country_data_def no_caches_def) (simp add: env0_def)

text \<open>
  Claim C8. The box plot helper returns \<open>None\<close>, and raises nothing, exactly when the
  table is empty or the metric is not among its columns. For a non-empty measurement
  table (one that carries the \<open>Country\<close> column, as every non-empty table of the loader
  and of the aggregator does) that has the metric column it returns a figure with one
  (entity, metric) point for each row, in row order.
\<close>

theorem comparison_boxplot_absent:
  "(create_comparison_boxplot df metric_name title_text = Inr None
      \<longleftrightarrow> df_empty df \<or> metric_name \<notin> set (columns df))
   \<and> (\<not> df_empty df \<and> metric_name \<in> set (columns df) \<and> ''Country'' \<in> set (columns df) \<longrightarrow>
        (\<exists>fig. create_comparison_boxplot df metric_name title_text = Inr (Some fig)
           \<and> points fig = map (\<lambda>r. (cell_at r ''Country'', cell_at r metric_name)) (rows df)))
   \<and> (\<not> df_empty (combined env country_list) \<longrightarrow>
         ''Country'' \<in> set (columns (combined env country_list)))"
  using combined_has_Country [of env country_list]
  by (simp add: create_comparison_boxplot_def)

theorem comparison_boxplot_absent_witness:
  "\<not> df_empty table_X \<and> ''GHI'' \<in> set (columns table_X) \<and> ''Country'' \<in> set (columns table_X)
   \<and> map_option points (projr (create_comparison_boxplot table_X ''GHI'' ''GHI by Country''))
       = Some [(Str ''X'', Num 10), (Str ''X'', Num 60), (Str ''X'', Num 80)]
   \<and> ''DNI'' \<notin> set (columns table_X)
   \<and> create_comparison_boxplot table_X ''DNI'' ''DNI by Country'' = Inr None
   \<and> df_empty (pd_DataFrame :: table)
   \<and> create_comparison_boxplot pd_DataFrame ''GHI'' ''GHI by Country'' = Inr None"
  using comparison_boxplot_absent [of table_X "''GHI''" "''GHI by Country''", THEN conjunct2, THEN conjunct1]
    comparison_boxplot_absent [of table_X "''DNI''" "''DNI by Country''", THEN conjunct1]
    comparison_boxplot_absent [of pd_DataFrame "''GHI''" "''GHI by Country''", THEN conjunct1]
  by (auto simp: table_X_def row_of_def df_empty_def pd_DataFrame_def cell_at_def metric_def)

text \<open>
  Claim C9. Two successive calls of the loader with the same name return the same table,
  and the second call neither probes nor reads a file: it returns what the first call
  stored. A stored result stays stored through every later call of the loader or the
  aggregator, so the body runs at most once for a name.
\<close>

theorem load_country_data_cached:
  "(case load_country_data env country_name c of
      (r1, evs1, c1) \<Rightarrow>
        (case load_country_data env country_name c1 of
           (r2, evs2, c2) \<Rightarrow>
             r2 = r1 \<and> file_accesses evs2 = [] \<and> c2 = c1
             \<and> (\<exists>df msgs. r1 = Inr df \<and> country_cache c1 country_name = Some (df, msgs))))
   \<and> (country_cache c country_name = Some (df, msgs) \<longrightarrow>
        load_country_data env' country_name c = (Inr df, Invoke country_name # map StError msgs, c)
        \<and> country_cache (snd (snd (load_country_data env' other c))) country_name = Some (df, msgs)
        \<and> country_cache (snd (snd (load_all_countries_data env' l c))) country_name
            = Some (df, msgs))"
proof -
  have two: "(case load_country_data env country_name c of
      (r1, evs1, c1) \<Rightarrow>
        (case load_country_data env country_name c1 of
           (r2, evs2, c2) \<Rightarrow>
             r2 = r1 \<and> file_accesses evs2 = [] \<and> c2 = c1
             \<and> (\<exists>df msgs. r1 = Inr df \<and> country_cache c1 country_name = Some (df, msgs))))"
  proof (cases "country_cache c country_name")
    case None
    obtain d evs where b: "load_country_data_body env country_name = (Inr d, evs)"
      using body_cases [of env country_name] by blast
    show ?thesis using None b by (simp add: load_country_data_def)
  next
    case (Some a)
    obtain d m where "a = (d, m)" by (cases a)
    then show ?thesis using Some by (simp add: load_country_data_def)
  qed
  show ?thesis
    using two load_country_data_hit [of c country_name df msgs env']
      load_country_data_keeps [of c country_name "(df, msgs)" env' other]
      load_all_keeps [of c country_name "(df, msgs)" env' l]
    by blast
qed

theorem load_country_data_cached_witness:
  "fst (load_country_data env0 ''Benin'' no_caches) = Inr (set_Country benin_file ''Benin'')
   \<and> file_accesses (fst (snd (load_country_data env0 ''Benin'' no_caches))) =
        [Exists ''/srv/app/../data/benin_clean.csv'', ReadCsv ''/srv/app/../data/benin_clean.csv'']
   \<and> fst (load_country_data env0 ''Benin'' (snd (snd (load_country_data env0 ''Benin'' no_caches))))
        = Inr (set_Country benin_file ''Benin'')
   \<and> file_accesses (fst (snd (load_country_data env0 ''Benin''
         (snd (snd (load_country_data env0 ''Benin'' no_caches)))))) = []
   \<and> country_cache (snd (snd (load_country_data env0 ''Benin'' no_caches))) ''Benin''
        = Some (set_Country benin_file ''Benin'', [])
   \<and> load_country_data env_bare ''Benin'' (snd (snd (load_country_data env0 ''Benin'' no_caches)))
        = (Inr (set_Country benin_file ''Benin''), [Invoke ''Benin''],
           snd (snd (load_country_data env0 ''Benin'' no_caches)))"
proof -
  have 1: "load_country_data env0 ''Benin'' no_caches =
      (Inr (set_Country benin_file ''Benin''),
       [Invoke ''Benin'', Exists ''/srv/app/../data/benin_clean.csv'',
        ReadCsv ''/srv/app/../data/benin_clean.csv''],
       no_caches\<lparr>country_cache := (country_cache no_caches)(''Benin'' \<mapsto>
          (set_Country benin_file ''Benin'', []))\<rparr>)"
    by (simp add: load_country_data_def body_Benin no_caches_def)
  have 2: "fst (load_country_data env0 ''Benin'' (snd (snd (load_country_data env0 ''Benin'' no_caches))))
        = Inr (set_Country benin_file ''Benin'')
   \<and> file_accesses (fst (snd (load_country_data env0 ''Benin''
         (snd (snd (load_country_data env0 ''Benin'' no_caches)))))) = []"
    using load_country_data_cached
      [where env = env0 and country_name = "''Benin''" and c = no_caches, THEN conjunct1]
    by (auto simp: 1 split: prod.splits)
  have 3: "country_cache (snd (snd (load_country_data env0 ''Benin'' no_caches))) ''Benin''
        = Some (set_Country benin_file ''Benin'', [])"
    by (simp add: 1)
  have 4: "load_country_data env_bare ''Benin'' (snd (snd (load_country_data env0 ''Benin'' no_caches)))
        = (Inr (set_Country benin_file ''Benin''), [Invoke ''Benin''],
           snd (snd (load_country_data env0 ''Benin'' no_caches)))"
    using load_country_data_cached
      [where country_name = "''Benin''" and env' = env_bare
         and c = "snd (snd (load_country_data env0 ''Benin'' no_caches))"
         and df = "set_Country benin_file ''Benin''" and msgs = "[]", THEN conjunct2] 3
    by simp
  show ?thesis using 2 3 4 by (simp add: 1)
qed

text \<open>
  Claim C10. Called with an empty entity list the aggregator returns an empty table and
  raises nothing: no table survives, so the guard returns \<open>pd.DataFrame()\<close> before
  \<open>pd.concat\<close>, which would raise on the empty list, is reached. The same holds
  through the cache.
\<close>

theorem load_all_empty_list:
  "load_all_countries_data_body env [] c = (Inr pd_DataFrame, [], c)
   \<and> df_empty (pd_DataFrame :: table)
   \<and> pd_concat ([] :: table list) = Inl (ValueError ''No objects to concatenate'')
   \<and> (caches_ok env c \<longrightarrow> fst (load_all_countries_data env [] c) = Inr pd_DataFrame)"
proof -
  have "caches_ok env c \<Longrightarrow> fst (load_all_countries_data env [] c) = Inr pd_DataFrame"
    using load_all_ok [of env c "[]"] by (auto simp: combined_def surviving_def)
  then show ?thesis
    by (simp add: load_all_countries_data_body_def pd_concat_def df_empty_def pd_DataFrame_def)
qed

theorem load_all_empty_list_witness:
  "caches_ok env0 no_caches
   \<and> fst (load_all_countries_data env0 [] no_caches) = Inr pd_DataFrame
   \<and> load_all_countries_data_body env0 [] no_caches = (Inr pd_DataFrame, [], no_caches)"
  using load_all_empty_list [of env0 no_caches] caches_ok_fresh [of env0] by simp

end
